theory Spec2Isabelle
  imports Complex_Main
begin

section \<open>Python strings\<close>

text \<open>
  A Python \<open>str\<close> is modelled as a \<open>string\<close>; every \<open>char\<close> stands for one code point
  in the range 0..255. Code points above 255 are outside the model.
\<close>

text \<open>
  The line boundaries of \<open>str.splitlines\<close> in that range: LF, CR (and the pair CR LF as
  one boundary), VT, FF, FS, GS, RS and NEL (0x85).
\<close>

definition is_linebreak :: "char \<Rightarrow> bool" where
  "is_linebreak c = (c \<in> {CHR 0x0A, CHR 0x0D, CHR 0x0B, CHR 0x0C, CHR 0x1C, CHR 0x1D, CHR 0x1E, CHR 0x85})"

text \<open>
  \<open>splitlines_from cur s\<close>: \<open>cur\<close> holds the characters of the line being read, last one
  first. A line pending at the end of the text is returned when it is not empty, so a
  text that ends with a line boundary has no empty last line.
\<close>

fun splitlines_from :: "string \<Rightarrow> string \<Rightarrow> string list" where
  "splitlines_from cur [] = (if cur = [] then [] else [rev cur])"
| "splitlines_from cur [c] = (if is_linebreak c then [rev cur] else [rev (c # cur)])"
| "splitlines_from cur (c # d # cs) =
     (if c = CHR 0x0D \<and> d = CHR 0x0A then rev cur # splitlines_from [] cs
      else if is_linebreak c then rev cur # splitlines_from [] (d # cs)
      else splitlines_from (c # cur) (d # cs))"

definition splitlines :: "string \<Rightarrow> string list" where
  "splitlines s = splitlines_from [] s"

text \<open>\<open>sep.join(xs)\<close> for a list of strings.\<close>

fun join :: "string \<Rightarrow> string list \<Rightarrow> string" where
  "join sep [] = []"
| "join sep [x] = x"
| "join sep (x # y # ys) = x @ sep @ join sep (y # ys)"

text \<open>
  \<open>line.split("=", 1)\<close>: one element when the line has no \<open>=\<close>, otherwise the text before
  the first \<open>=\<close> and the text after it.
\<close>

definition split_eq1 :: "string \<Rightarrow> string list" where
  "split_eq1 line =
     (if CHR ''='' \<in> set line
      then [takeWhile (\<lambda>c. c \<noteq> CHR ''='') line, tl (dropWhile (\<lambda>c. c \<noteq> CHR ''='') line)]
      else [line])"

section \<open>Task.convert_env_to_dict\<close>

text \<open>
  One iteration of the loop over the lines. \<open>line.find(" ") < 0\<close> holds when the line has
  no space at all. Unpacking \<open>key, value = line.split("=", 1)\<close> raises ValueError when the
  split has one element; the \<open>except ValueError: pass\<close> leaves the dictionary as it was.
\<close>

definition env_step :: "(string \<rightharpoonup> string) \<Rightarrow> string \<Rightarrow> (string \<rightharpoonup> string)" where
  "env_step my_env line =
     (if CHR '' '' \<notin> set line
      then (case split_eq1 line of
              [key, val] \<Rightarrow> my_env(key \<mapsto> val)
            | _ \<Rightarrow> my_env)
      else my_env)"

definition convert_env_to_dict :: "string \<Rightarrow> (string \<rightharpoonup> string)" where
  "convert_env_to_dict env = foldl env_step Map.empty (splitlines env)"

text \<open>The key and the value of a line that has an \<open>=\<close>.\<close>

definition key_of :: "string \<Rightarrow> string" where
  "key_of line = takeWhile (\<lambda>c. c \<noteq> CHR ''='') line"

definition value_of :: "string \<Rightarrow> string" where
  "value_of line = tl (dropWhile (\<lambda>c. c \<noteq> CHR ''='') line)"

text \<open>A line is kept when it has no space anywhere and has an \<open>=\<close>.\<close>

definition kept :: "string \<Rightarrow> bool" where
  "kept line = (CHR '' '' \<notin> set line \<and> CHR ''='' \<in> set line)"

lemma env_step_kept: "kept line \<Longrightarrow> env_step m line = m(key_of line \<mapsto> value_of line)"
  by (simp add: env_step_def kept_def split_eq1_def key_of_def value_of_def)

lemma env_step_dropped: "\<not> kept line \<Longrightarrow> env_step m line = m"
  by (auto simp: env_step_def kept_def split_eq1_def)

lemma foldl_env_step:
  "foldl env_step m ls = m ++ map_of (rev (map (\<lambda>l. (key_of l, value_of l)) (filter kept ls)))"
proof (induction ls arbitrary: m)
  case Nil
  show ?case by simp
next
  case (Cons l ls)
  show ?case
  proof (cases "kept l")
    case True
    let ?M = "map_of (rev (map (\<lambda>l. (key_of l, value_of l)) (filter kept ls)))"
    have "foldl env_step m (l # ls) = m(key_of l \<mapsto> value_of l) ++ ?M"
      using True by (simp only: foldl_Cons env_step_kept Cons.IH)
    also have "m(key_of l \<mapsto> value_of l) = m ++ [key_of l \<mapsto> value_of l]"
      by simp
    also have "(m ++ [key_of l \<mapsto> value_of l]) ++ ?M = m ++ ([key_of l \<mapsto> value_of l] ++ ?M)"
      by (simp only: map_add_assoc)
    also have "[key_of l \<mapsto> value_of l] ++ ?M
        = map_of (rev (map (\<lambda>l. (key_of l, value_of l)) (filter kept (l # ls))))"
      using True by simp
    finally show ?thesis .
  next
    case False
    then show ?thesis by (simp add: Cons.IH env_step_dropped)
  qed
qed


section \<open>The command runner: data\<close>

text \<open>
  \<open>command\<close>, \<open>sourcescripts\<close> and \<open>sourcescript\<close> are either one \<open>str\<close> or a list of
  \<open>str\<close>. Both are false in a condition when they are empty; \<open>isinstance(x, str)\<close> wraps a
  \<open>str\<close> into a list of one element.
\<close>

datatype str_or_list = Str string | Lst "string list"

fun truthy :: "str_or_list \<Rightarrow> bool" where
  "truthy (Str s) = (s \<noteq> [])"
| "truthy (Lst xs) = (xs \<noteq> [])"

fun as_list :: "str_or_list \<Rightarrow> string list" where
  "as_list (Str s) = [s]"
| "as_list (Lst xs) = xs"

type_synonym environ = "string \<rightharpoonup> string"

text \<open>
  The exceptions of the repository, by the message of the \<open>Exception\<close> raised, and the
  built-in exceptions its code can run into.
\<close>

datatype error =
    NoCommandProvided \<comment> \<open>\<open>Exception("No command provided.")\<close>\<close>
  | SourceFailed \<comment> \<open>\<open>Exception("source failed")\<close>\<close>
  | CommandFailed "string list" \<comment> \<open>\<open>Exception("{} failed".format(list(command)))\<close>\<close>
  | TarFailed \<comment> \<open>\<open>Exception("tar failed")\<close>\<close>
  | CouldNotDelete string \<comment> \<open>\<open>Exception("File {} could not be deleted")\<close>\<close>
  | IndexError
  | ValueError
  | KeyError string
  | AttributeError
  | TypeError
  | External string \<comment> \<open>an exception raised inside a collaborator that is not repository code\<close>

text \<open>
  What the code does to the outside, in order: the entries written to the console and the
  child processes started. \<open>Log_running cmd loc\<close> is the text \<open>Running cmd\<close>, followed by
  \<open>from loc\<close> when a location is given.
\<close>

datatype event =
    Log_source_script str_or_list \<comment> \<open>\<open>with source script: {}\<close>\<close>
  | Log_source_nonzero int \<comment> \<open>\<open>source returned non-zero exit status {}\<close>\<close>
  | Log_error string \<comment> \<open>\<open>Error: {}\<close>\<close>
  | Log_running "string list" "string option"
  | Rule \<comment> \<open>\<open>console.rule()\<close>\<close>
  | Log_output string \<comment> \<open>\<open>Output: {}\<close>\<close>
  | Log_error_when_running "string list" \<comment> \<open>\<open>Error when running {}.\<close>\<close>
  | Log_nonzero int \<comment> \<open>\<open>Command returned non-zero exit status {}.\<close>\<close>
  | Log_success \<comment> \<open>\<open>Command successful.\<close>\<close>
  | Log_line string \<comment> \<open>a line of the child's output, stripped\<close>
  | Spawn string "environ option" "string option" \<comment> \<open>a shell started with command, env and cwd\<close>

text \<open>
  \<open>interruptable_popen(cmd, shell=True, stdout=PIPE, stderr=PIPE, env=..., cwd=...)\<close> runs
  the child to its end and returns exit code, stdout and stderr. The operating system is
  a parameter of the model.
\<close>

type_synonym popen_fn = "string \<Rightarrow> environ option \<Rightarrow> string option \<Rightarrow> int \<times> string \<times> string"

text \<open>\<open>if run_location:\<close> holds for a location that is neither \<open>None\<close> nor empty.\<close>

fun location_shown :: "string option \<Rightarrow> string option" where
  "location_shown None = None"
| "location_shown (Some l) = (if l = [] then None else Some l)"

section \<open>Task.set_environment\<close>

definition source_command_string :: "str_or_list \<Rightarrow> string" where
  "source_command_string sourcescripts =
     join '' '' (map (\<lambda>s. ''source '' @ s @ '';'') (as_list sourcescripts) @ [''env''])"

definition set_environment :: "popen_fn \<Rightarrow> str_or_list \<Rightarrow> bool \<Rightarrow> event list \<times> (error + environ)" where
  "set_environment ipopen sourcescripts silent =
     (let log0 = (if \<not> silent then [Log_source_script sourcescripts] else []);
          cmd = source_command_string sourcescripts;
          (code, out, err) = ipopen cmd None None;
          log1 = log0 @ [Spawn cmd None None]
      in if code \<noteq> 0
         then (log1 @ [Log_source_nonzero code, Log_error err], Inl SourceFailed)
         else (log1, Inr (convert_env_to_dict out)))"

section \<open>Task.run_command\<close>

text \<open>
  The part of \<open>run_command\<close> after the environment is known. The result is \<open>out\<close> when
  \<open>collect_out\<close> is set and \<open>None\<close> otherwise.
\<close>

definition run_child ::
  "popen_fn \<Rightarrow> string list \<Rightarrow> environ option \<Rightarrow> string option \<Rightarrow> bool \<Rightarrow> bool
     \<Rightarrow> event list \<times> (error + string option)" where
  "run_child ipopen cmd run_env run_location collect_out silent =
     (let log2 = (if \<not> silent then [Rule] else []);
          line = join '' '' cmd;
          (code, out, err) = ipopen line run_env run_location;
          log3 = (if \<not> silent then [Log_output out, Rule] else []);
          log4 = (if \<not> silent \<or> code \<noteq> 0 then [Log_error err, Rule] else []);
          before = log2 @ [Spawn line run_env run_location] @ log3 @ log4
      in if code \<noteq> 0
         then (before @ [Log_error_when_running cmd, Log_nonzero code], Inl (CommandFailed cmd))
         else (before @ (if \<not> silent then [Log_success] else []),
               Inr (if collect_out then Some out else None)))"

definition run_command ::
  "popen_fn \<Rightarrow> str_or_list \<Rightarrow> str_or_list \<Rightarrow> string option \<Rightarrow> bool \<Rightarrow> bool
     \<Rightarrow> event list \<times> (error + string option)" where
  "run_command ipopen command sourcescripts run_location collect_out silent =
     (if truthy command
      then (let cmd = as_list command;
                log1 = (if \<not> silent then [Log_running cmd (location_shown run_location)] else [])
            in if truthy sourcescripts
               then (case set_environment ipopen sourcescripts silent of
                       (elog, Inl e) \<Rightarrow> (log1 @ elog, Inl e)
                     | (elog, Inr env) \<Rightarrow>
                         (let (clog, r) = run_child ipopen cmd (Some env) run_location collect_out silent
                          in (log1 @ elog @ clog, r)))
               else (let (clog, r) = run_child ipopen cmd None run_location collect_out silent
                     in (log1 @ clog, r)))
      else ([], Inl NoCommandProvided))"

section \<open>Task.run_command_readable\<close>

text \<open>
  \<open>str.strip()\<close> removes the white space at both ends: the code points below 256 for
  which \<open>isspace()\<close> holds.
\<close>

definition is_space :: "char \<Rightarrow> bool" where
  "is_space c = (c \<in> {CHR 0x09, CHR 0x0A, CHR 0x0B, CHR 0x0C, CHR 0x0D, CHR 0x1C, CHR 0x1D,
                       CHR 0x1E, CHR 0x1F, CHR 0x20, CHR 0x85, CHR 0xA0})"

definition strip :: "string \<Rightarrow> string" where
  "strip s = rev (dropWhile is_space (rev (dropWhile is_space s)))"

text \<open>
  The child started by \<open>Popen\<close> is seen through the loop's rounds. One round is what
  \<open>select\<close> returns (the descriptors ready for reading, each with the line \<open>readline\<close>
  gives for it) and what \<open>p.poll()\<close> returns after the reads: \<open>None\<close> while the child
  runs, its exit status otherwise. When the rounds run out before \<open>poll\<close> gives a status,
  \<open>select\<close> blocks for ever and the loop does not return.
\<close>

datatype fd = Stdout | Stderr

type_synonym round = "(fd \<times> string) list \<times> int option"

type_synonym popen_stream_fn = "string \<Rightarrow> environ option \<Rightarrow> string option \<Rightarrow> round list"

fun read_ready :: "(fd \<times> string) \<Rightarrow> event list" where
  "read_ready (f, read) =
     (if f = Stdout then (if read \<noteq> [CHR 0x0A] then [Log_line (strip read)] else []) else [])
     @ (if f = Stderr then (if read \<noteq> [CHR 0x0A] then [Log_line (strip read)] else []) else [])"

fun readable_loop :: "round list \<Rightarrow> event list option" where
  "readable_loop [] = None"
| "readable_loop ((ready, status) # rounds) =
     (let out = concat (map read_ready ready)
      in if status \<noteq> None then Some out
         else map_option (\<lambda>rest. out @ rest) (readable_loop rounds))"

text \<open>
  The part of \<open>run_command_readable\<close> after the environment is known. After the loop the
  function ends: it returns \<open>None\<close>, here the unit value.
\<close>

definition stream_child ::
  "popen_stream_fn \<Rightarrow> string list \<Rightarrow> environ option \<Rightarrow> string option
     \<Rightarrow> (event list \<times> (error + unit)) option" where
  "stream_child popen cmd run_env run_location =
     (let line = join '' '' cmd;
          before = [Log_running cmd (location_shown run_location), Spawn line run_env run_location]
      in map_option (\<lambda>out. (before @ out, Inr ())) (readable_loop (popen line run_env run_location)))"

definition run_command_readable ::
  "popen_fn \<Rightarrow> popen_stream_fn \<Rightarrow> str_or_list \<Rightarrow> str_or_list \<Rightarrow> string option
     \<Rightarrow> (event list \<times> (error + unit)) option" where
  "run_command_readable ipopen popen command sourcescript run_location =
     (if truthy command
      then (let cmd = as_list command
            in if truthy sourcescript
               then (case set_environment ipopen sourcescript False of
                       (elog, Inl e) \<Rightarrow> Some (elog, Inl e)
                     | (elog, Inr env) \<Rightarrow>
                         map_option (\<lambda>(clog, r). (elog @ clog, r))
                           (stream_child popen cmd (Some env) run_location))
               else stream_child popen cmd None run_location)
      else Some ([], Inl NoCommandProvided))"


section \<open>Properties of the environment parser\<close>

text \<open>
  C2 as the code has it. The dictionary built from a text is the one given by its kept
  lines, each split at its first \<open>=\<close>, a later line overriding an earlier one with the
  same key. A line is kept when it has no space anywhere (before or after the \<open>=\<close>) and
  has an \<open>=\<close>; every other line is dropped.
\<close>

theorem convert_env_to_dict_kept_lines:
  "convert_env_to_dict env =
     map_of (rev (map (\<lambda>l. (key_of l, value_of l)) (filter kept (splitlines env))))"
  by (simp add: convert_env_to_dict_def foldl_env_step)

text \<open>
  C2 as stated fails: the line \<open>A=b c\<close> has an \<open>=\<close> and no space before it, and is
  dropped all the same, because of the space in its value.
\<close>

theorem convert_env_to_dict_value_space_counterexample:
  "CHR ''='' \<in> set ''A=b c'' \<and> CHR '' '' \<notin> set (key_of ''A=b c'')
     \<and> splitlines ''A=b c'' = [''A=b c'']
     \<and> convert_env_to_dict ''A=b c'' ''A'' = None"
  by (simp add: convert_env_to_dict_def splitlines_def is_linebreak_def env_step_def key_of_def)

section \<open>Properties of the command runner\<close>

text \<open>
  C10. With an empty command, the empty list or the empty string, \<open>run_command\<close> and
  \<open>run_command_readable\<close> raise \<open>Exception("No command provided.")\<close>; nothing is logged
  and no process is started.
\<close>

theorem empty_command_raises:
  "run_command ipopen (Lst []) sourcescripts run_location collect_out silent
     = ([], Inl NoCommandProvided)
   \<and> run_command ipopen (Str []) sourcescripts run_location collect_out silent
     = ([], Inl NoCommandProvided)
   \<and> run_command_readable ipopen popen (Lst []) sourcescript run_location
     = Some ([], Inl NoCommandProvided)
   \<and> run_command_readable ipopen popen (Str []) sourcescript run_location
     = Some ([], Inl NoCommandProvided)"
  by (simp add: run_command_def run_command_readable_def)

text \<open>
  The loop of the streaming mode only looks at whether the child has ended: the events
  are the same whatever the exit status is.
\<close>

lemma readable_loop_status_irrelevant:
  "readable_loop (map (\<lambda>(ready, status). (ready, map_option f status)) rounds)
     = readable_loop rounds"
  by (induction rounds) (auto simp: Let_def)

lemma stream_child_returns:
  "stream_child popen cmd run_env run_location = Some (evs, r) \<Longrightarrow> r = Inr ()"
  by (auto simp: stream_child_def Let_def)

lemma run_command_readable_never_command_failed:
  "run_command_readable ipopen popen command sourcescript run_location
     \<noteq> Some (evs, Inl (CommandFailed cmd))"
  by (auto simp: run_command_readable_def set_environment_def Let_def
      split: prod.splits sum.splits if_splits dest: stream_child_returns)

text \<open>
  C1 fails on the code. In streaming mode the command \<open>false\<close>, whose child ends with
  exit status 1 (or any other status) at the first poll, makes \<open>run_command_readable\<close>
  return normally: the exit status is never read after the loop.
\<close>

theorem run_command_readable_nonzero_exit_returns:
  "run_command_readable ipopen (\<lambda>cmd env cwd. [([], Some status)]) (Lst [''false'']) (Lst []) None
     = Some ([Log_running [''false''] None, Spawn ''false'' None None], Inr ())"
  by (simp add: run_command_readable_def stream_child_def)

text \<open>
  The environment the child of \<open>run_command\<close> gets, and whether the sourcing before it
  succeeds (there is none without source scripts).
\<close>

definition run_env_of :: "popen_fn \<Rightarrow> str_or_list \<Rightarrow> environ option" where
  "run_env_of ipopen sourcescripts =
     (if truthy sourcescripts
      then Some (convert_env_to_dict (fst (snd (ipopen (source_command_string sourcescripts) None None))))
      else None)"

definition sourcing_ok :: "popen_fn \<Rightarrow> str_or_list \<Rightarrow> bool" where
  "sourcing_ok ipopen sourcescripts =
     (if truthy sourcescripts then fst (ipopen (source_command_string sourcescripts) None None) = 0
      else True)"

lemma run_command_as_run_child:
  assumes "truthy command" and "sourcing_ok ipopen sourcescripts"
  shows "snd (run_command ipopen command sourcescripts run_location collect_out silent)
           = snd (run_child ipopen (as_list command) (run_env_of ipopen sourcescripts)
                    run_location collect_out silent)"
    and "set (fst (run_child ipopen (as_list command) (run_env_of ipopen sourcescripts)
                    run_location collect_out silent))
           \<subseteq> set (fst (run_command ipopen command sourcescripts run_location collect_out silent))"
  using assms
  by (auto simp: run_command_def sourcing_ok_def run_env_of_def set_environment_def Let_def
      split: prod.splits sum.splits if_splits)

text \<open>
  C3. A non-empty command whose child is reached (the sourcing, when there is one,
  succeeds) and ends with a non-zero exit status makes \<open>run_command\<close> raise the
  \<open>... failed\<close> exception, and the console gets the child's stderr, the failed command and
  the exit status whatever the silent flag is. With exit status zero and \<open>collect_out\<close>
  set the result is the child's stdout.
\<close>

theorem run_command_exit_status:
  assumes "truthy command" and "sourcing_ok ipopen sourcescripts"
    and "ipopen (join '' '' (as_list command)) (run_env_of ipopen sourcescripts) run_location
           = (code, out, err)"
  shows "(code \<noteq> 0 \<longrightarrow>
            snd (run_command ipopen command sourcescripts run_location collect_out silent)
              = Inl (CommandFailed (as_list command))
            \<and> {Log_error err, Log_error_when_running (as_list command), Log_nonzero code}
              \<subseteq> set (fst (run_command ipopen command sourcescripts run_location collect_out silent)))
         \<and> (code = 0 \<and> collect_out \<longrightarrow>
            snd (run_command ipopen command sourcescripts run_location collect_out silent)
              = Inr (Some out))"
proof (intro conjI impI)
  let ?child = "run_child ipopen (as_list command) (run_env_of ipopen sourcescripts)
                  run_location collect_out silent"
  let ?run = "run_command ipopen command sourcescripts run_location collect_out silent"
  have res: "snd ?run = snd ?child" and sub: "set (fst ?child) \<subseteq> set (fst ?run)"
    using run_command_as_run_child [OF assms(1,2)] by blast+
  {
    assume nz: "code \<noteq> 0"
    show "snd ?run = Inl (CommandFailed (as_list command))"
      using res assms(3) nz by (simp add: run_child_def Let_def)
    have "{Log_error err, Log_error_when_running (as_list command), Log_nonzero code}
            \<subseteq> set (fst ?child)"
      using assms(3) nz by (simp add: run_child_def Let_def)
    then show "{Log_error err, Log_error_when_running (as_list command), Log_nonzero code}
            \<subseteq> set (fst ?run)"
      using sub by blast
  }
  {
    assume z: "code = 0 \<and> collect_out"
    show "snd ?run = Inr (Some out)"
      using res assms(3) z by (simp add: run_child_def Let_def)
  }
qed

text \<open>
  The theorem at work, both times with the silent flag set: \<open>false\<close> ends with status 1
  and \<open>boom\<close> on stderr, \<open>true\<close> ends with status 0 and \<open>out\<close> on stdout.
\<close>

theorem run_command_exit_status_witness:
  "snd (run_command (\<lambda>c e l. if c = ''false'' then (1, [], ''boom'') else (0, ''out'', []))
          (Lst [''false'']) (Lst []) None True True) = Inl (CommandFailed [''false''])
   \<and> {Log_error ''boom'', Log_error_when_running [''false''], Log_nonzero 1}
        \<subseteq> set (fst (run_command (\<lambda>c e l. if c = ''false'' then (1, [], ''boom'') else (0, ''out'', []))
                       (Lst [''false'']) (Lst []) None True True))
   \<and> snd (run_command (\<lambda>c e l. if c = ''false'' then (1, [], ''boom'') else (0, ''out'', []))
          (Lst [''true'']) (Lst []) None True True) = Inr (Some ''out'')"
  using run_command_exit_status [of "Lst [''false'']"
      "\<lambda>c e l. if c = ''false'' then (1, [], ''boom'') else (0, ''out'', [])"
      "Lst []" None 1 "[]" "''boom''" True True]
    run_command_exit_status [of "Lst [''true'']"
      "\<lambda>c e l. if c = ''false'' then (1, [], ''boom'') else (0, ''out'', [])"
      "Lst []" None 0 "''out''" "[]" True True]
  by (simp add: sourcing_ok_def run_env_of_def)


section \<open>CROWNFriends.create_branch_map\<close>

text \<open>\<open>s.split(sep)\<close> for a separator of one character: at least one element.\<close>

fun split_on :: "char \<Rightarrow> string \<Rightarrow> string list" where
  "split_on sep [] = [[]]"
| "split_on sep (x # xs) =
     (if x = sep then [] # split_on sep xs
      else (case split_on sep xs of
              [] \<Rightarrow> [[x]]
            | y # ys \<Rightarrow> (x # y) # ys))"

definition endswith :: "string \<Rightarrow> string \<Rightarrow> bool" where
  "endswith s suf = (length suf \<le> length s \<and> drop (length s - length suf) s = suf)"

text \<open>\<open>xs[-2]\<close> raises IndexError on a list of fewer than two elements.\<close>

definition second_to_last :: "'a list \<Rightarrow> error + 'a" where
  "second_to_last xs = (if length xs < 2 then Inl IndexError else Inr (xs ! (length xs - 2)))"

text \<open>
  The parameters of the task classes, each class extending its base class: \<open>Task\<close>,
  \<open>HTCondorWorkflow(Task)\<close> and \<open>CROWNFriends(HTCondorWorkflow)\<close>. \<open>class_name\<close> is
  \<open>self.__class__.__name__\<close>; \<open>local_user\<close> and \<open>htcondor_user_proxy\<close> are class
  attributes computed when the module is loaded; \<open>identifiers\<close> is the parameter
  \<open>identifier\<close> (a keyword here).
\<close>

record task =
  class_name :: string
  local_user :: string
  wlcg_path :: string
  production_tag :: string
  identifiers :: "string list"

record htcondor_workflow = task +
  ENV_NAME :: string
  htcondor_accounting_group :: string
  htcondor_requirements :: string
  htcondor_remote_job :: string
  htcondor_walltime :: string
  htcondor_request_cpus :: string
  htcondor_request_gpus :: string
  htcondor_request_memory :: string
  htcondor_universe :: string
  htcondor_docker_image :: string
  htcondor_request_disk :: string
  bootstrap_file :: string
  additional_files :: "string list"
  htcondor_user_proxy :: string

record crown_friends = htcondor_workflow +
  all_sampletypes :: "string list"
  all_eras :: "string list"
  scopes :: "string list"
  shifts :: string
  analysis :: string
  friend_config :: string
  config :: string
  friend_name :: string
  nick :: string
  sampletype :: string
  era :: string
  files_per_task :: int

text \<open>The value stored for one branch.\<close>

record branch_data =
  b_scope :: string
  b_nick :: string
  b_era :: string
  b_sampletype :: string
  b_inputfile :: string
  b_filecounter :: nat

text \<open>
  The loop over \<open>inputs._flat_target_list\<close>, given as the list of the targets' paths in
  the collection's order; the state is \<open>branch_map\<close> and \<open>counter\<close>.
  \<open>os.path.expandvars\<close> reads the process environment and is a parameter.
  \<open>int(counter / len(self.scopes))\<close> is the truncated quotient of two natural numbers
  (the float division is exact enough for that below \<open>2 ^ 53\<close>); it is only reached when
  the scope is in \<open>self.scopes\<close>, so the list is not empty there.
\<close>

fun branch_loop ::
  "(string \<Rightarrow> string) \<Rightarrow> crown_friends \<Rightarrow> string list \<Rightarrow> (nat \<rightharpoonup> branch_data) \<times> nat
     \<Rightarrow> error + ((nat \<rightharpoonup> branch_data) \<times> nat)" where
  "branch_loop expandvars t [] st = Inr st"
| "branch_loop expandvars t (path # rest) (branch_map, counter) =
     (if \<not> endswith path ''.root'' then branch_loop expandvars t rest (branch_map, counter)
      else (case second_to_last (split_on CHR ''/'' path) of
              Inl e \<Rightarrow> Inl e
            | Inr scope \<Rightarrow>
                if scope \<in> set (scopes t)
                then branch_loop expandvars t rest
                       (branch_map(counter \<mapsto>
                          \<lparr>b_scope = scope, b_nick = nick t, b_era = era t,
                           b_sampletype = sampletype t,
                           b_inputfile = expandvars (wlcg_path t) @ path,
                           b_filecounter = counter div length (scopes t)\<rparr>),
                        counter + 1)
                else branch_loop expandvars t rest (branch_map, counter)))"

definition create_branch_map ::
  "(string \<Rightarrow> string) \<Rightarrow> crown_friends \<Rightarrow> string list \<Rightarrow> error + (nat \<rightharpoonup> branch_data)" where
  "create_branch_map expandvars t inputs =
     (case branch_loop expandvars t inputs (Map.empty, 0) of
        Inl e \<Rightarrow> Inl e
      | Inr (branch_map, counter) \<Rightarrow> Inr branch_map)"


text \<open>
  For the statements: the scope read from a path that has two segments or more, the files
  that get a branch, and the value stored for the file \<open>path\<close> at branch index \<open>k\<close>.
\<close>

definition scope_of :: "string \<Rightarrow> string" where
  "scope_of path = split_on CHR ''/'' path ! (length (split_on CHR ''/'' path) - 2)"

definition eligible :: "crown_friends \<Rightarrow> string \<Rightarrow> bool" where
  "eligible t path = (endswith path ''.root'' \<and> scope_of path \<in> set (scopes t))"

definition branch_of :: "(string \<Rightarrow> string) \<Rightarrow> crown_friends \<Rightarrow> string \<Rightarrow> nat \<Rightarrow> branch_data" where
  "branch_of expandvars t path k =
     \<lparr>b_scope = scope_of path, b_nick = nick t, b_era = era t, b_sampletype = sampletype t,
      b_inputfile = expandvars (wlcg_path t) @ path,
      b_filecounter = k div length (scopes t)\<rparr>"


text \<open>Inputs for the scenarios: two source files in two scopes, in two orders.\<close>

definition example_task :: crown_friends where
  "example_task =
     \<lparr>class_name = ''CROWNFriends'', local_user = ''user'', wlcg_path = ''root://x'',
      production_tag = ''v1'', identifiers = [],
      ENV_NAME = ''env'', htcondor_accounting_group = ''group'', htcondor_requirements = [],
      htcondor_remote_job = ''True'', htcondor_walltime = ''3600'',
      htcondor_request_cpus = ''1'', htcondor_request_gpus = ''0'',
      htcondor_request_memory = ''2000'', htcondor_universe = ''docker'',
      htcondor_docker_image = ''image'', htcondor_request_disk = ''2000000'',
      bootstrap_file = ''setup_law_remote.sh'', additional_files = [],
      htcondor_user_proxy = ''/tmp/x509up_u1000'',
      all_sampletypes = [''mc''], all_eras = [''2018''], scopes = [''scope_a'', ''scope_b''],
      shifts = ''None'', analysis = ''tau'', friend_config = ''friend'', config = ''config'',
      friend_name = ''fr'', nick = ''n'', sampletype = ''mc'', era = ''2018'',
      files_per_task = 1\<rparr>"

definition alternating_inputs :: "string list" where
  "alternating_inputs =
     [''/d/scope_a/n_0.root'', ''/d/scope_b/n_0.root'',
      ''/d/scope_a/n_1.root'', ''/d/scope_b/n_1.root'']"

definition grouped_inputs :: "string list" where
  "grouped_inputs =
     [''/d/scope_a/n_0.root'', ''/d/scope_a/n_1.root'',
      ''/d/scope_b/n_0.root'', ''/d/scope_b/n_1.root'']"

text \<open>The file counters and the input files of the branches \<open>ks\<close> of a result.\<close>

definition filecounters :: "error + (nat \<rightharpoonup> branch_data) \<Rightarrow> nat list \<Rightarrow> error + nat option list" where
  "filecounters r ks =
     (case r of Inl e \<Rightarrow> Inl e
      | Inr bm \<Rightarrow> Inr (map (\<lambda>k. map_option b_filecounter (bm k)) ks))"

definition inputfiles :: "error + (nat \<rightharpoonup> branch_data) \<Rightarrow> nat list \<Rightarrow> error + string option list" where
  "inputfiles r ks =
     (case r of Inl e \<Rightarrow> Inl e
      | Inr bm \<Rightarrow> Inr (map (\<lambda>k. map_option b_inputfile (bm k)) ks))"

text \<open>The last segment of a path: the file's name inside its scope directory.\<close>

definition file_name :: "string \<Rightarrow> string" where
  "file_name path = last (split_on CHR ''/'' path)"


section \<open>Properties of the branch mapper\<close>

lemma second_to_last_Inr: "second_to_last (split_on CHR ''/'' path) = Inr s \<Longrightarrow> s = scope_of path"
  by (auto simp: second_to_last_def scope_of_def split: if_splits)

lemma branch_loop_Inr:
  "branch_loop ev t ps (bm, c) = Inr (bm', c') \<Longrightarrow>
     c' = c + length (filter (eligible t) ps)
     \<and> (\<forall>k. bm' k = (if c \<le> k \<and> k < c' then Some (branch_of ev t (filter (eligible t) ps ! (k - c)) k) else bm k))"
proof (induction ps arbitrary: bm c)
  case Nil
  then show ?case by auto
next
  case (Cons p ps)
  show ?case
  proof (cases "endswith p ''.root''")
    case False
    then have ne: "\<not> eligible t p" by (simp add: eligible_def)
    have "branch_loop ev t ps (bm, c) = Inr (bm', c')"
      using Cons.prems False by simp
    from Cons.IH [OF this] show ?thesis using ne by simp
  next
    case True
    then obtain s where s: "second_to_last (split_on CHR ''/'' p) = Inr s"
      using Cons.prems by (auto split: sum.splits)
    then have sp: "s = scope_of p" by (rule second_to_last_Inr)
    show ?thesis
    proof (cases "s \<in> set (scopes t)")
      case False
      then have ne: "\<not> eligible t p" using sp by (simp add: eligible_def)
      have "branch_loop ev t ps (bm, c) = Inr (bm', c')"
        using Cons.prems True s False by simp
      from Cons.IH [OF this] show ?thesis using ne by simp
    next
      case In: True
      let ?X = "branch_of ev t p c"
      have el: "eligible t p" using True In sp by (simp add: eligible_def)
      have run: "branch_loop ev t ps (bm(c \<mapsto> ?X), c + 1) = Inr (bm', c')"
        using Cons.prems True s sp In by (simp add: branch_of_def)
      note IH = Cons.IH [OF run]
      from IH have c': "c' = c + length (filter (eligible t) (p # ps))"
        using el by simp
      moreover have "bm' k = (if c \<le> k \<and> k < c' then Some (branch_of ev t (filter (eligible t) (p # ps) ! (k - c)) k) else bm k)" for k
        using IH el by (cases "k = c") (auto simp: nth_Cons')
      ultimately show ?thesis by blast
    qed
  qed
qed


lemma branch_loop_depends:
  assumes "scopes t = scopes t'" and "nick t = nick t'" and "era t = era t'"
    and "sampletype t = sampletype t'" and "ev (wlcg_path t) = ev' (wlcg_path t')"
  shows "branch_loop ev t ps st = branch_loop ev' t' ps st"
proof (induction ps arbitrary: st)
  case Nil
  show ?case by simp
next
  case (Cons p ps)
  obtain bm c where st: "st = (bm, c)" by (cases st)
  show ?case
    unfolding st using assms by (simp add: Cons.IH split: sum.splits)
qed


text \<open>
  C4. The branch map is a function of the upstream paths in their order, the scope list,
  nick, era, sample type and the expanded base path, and of nothing else: two invocations
  that agree on these (whatever their other parameters and their process environments)
  return the same mapping, or raise the same error.
\<close>

theorem create_branch_map_deterministic:
  assumes "scopes t = scopes t'" and "nick t = nick t'" and "era t = era t'"
    and "sampletype t = sampletype t'" and "ev (wlcg_path t) = ev' (wlcg_path t')"
  shows "create_branch_map ev t inputs = create_branch_map ev' t' inputs"
proof -
  have "branch_loop ev t inputs (Map.empty, 0) = branch_loop ev' t' inputs (Map.empty, 0)"
    using assms by (rule branch_loop_depends)
  then show ?thesis by (simp add: create_branch_map_def)
qed

theorem create_branch_map_deterministic_witness:
  "create_branch_map id example_task alternating_inputs
     = create_branch_map (\<lambda>s. if s = ''$BASE'' then ''root://x'' else s)
         (example_task\<lparr>production_tag := ''v2'', wlcg_path := ''$BASE''\<rparr>) alternating_inputs"
  using create_branch_map_deterministic [of example_task
      "example_task\<lparr>production_tag := ''v2'', wlcg_path := ''$BASE''\<rparr>" id
      "\<lambda>s. if s = ''$BASE'' then ''root://x'' else s" alternating_inputs]
  by (simp add: example_task_def)

lemma three_div_two: "Suc (Suc (Suc 0)) div Suc (Suc 0) = Suc 0"
proof -
  have "(3::nat) div 2 = 1" by simp
  then show ?thesis unfolding numeral_3_eq_3 numeral_2_eq_2 by simp
qed

lemma alternating_filecounters: "filecounters (create_branch_map ev example_task alternating_inputs) [0, 1, 2, 3, 4]
     = Inr [Some 0, Some 0, Some 1, Some 1, None]"
  by (simp add: filecounters_def create_branch_map_def alternating_inputs_def example_task_def
      endswith_def second_to_last_def eval_nat_numeral three_div_two)


text \<open>
  C5 as stated fails. With the upstream files listed scope by scope, branches 0 and 2 come
  from the files \<open>n_0.root\<close> of the two scopes, the same source file, and get the counters
  0 and 1; branches 0 and 1 come from two files of the same scope and share counter 0.
\<close>

theorem grouped_inputs_filecounter_counterexample: "filecounters (create_branch_map id example_task grouped_inputs) [0, 1, 2, 3, 4]
     = Inr [Some 0, Some 0, Some 1, Some 1, None]
   \<and> inputfiles (create_branch_map id example_task grouped_inputs) [0, 1, 2, 3, 4]
     = Inr [Some ''root://x/d/scope_a/n_0.root'', Some ''root://x/d/scope_a/n_1.root'',
            Some ''root://x/d/scope_b/n_0.root'', Some ''root://x/d/scope_b/n_1.root'', None]
   \<and> file_name ''/d/scope_a/n_0.root'' = file_name ''/d/scope_b/n_0.root''"
  by (simp add: filecounters_def inputfiles_def create_branch_map_def grouped_inputs_def example_task_def file_name_def
      endswith_def second_to_last_def eval_nat_numeral three_div_two)


text \<open>
  C5 as the code has it. The branches are \<open>0\<close> to the number of eligible files less one,
  and the file counter of branch \<open>k\<close> is \<open>k div\<close> the length of the scope list. Branches of
  the same source file get the same counter when upstream lists the eligible files source
  file by source file, one block of that length for each: \<open>source_of\<close> names the source
  file of a path and \<open>srcs\<close> lists the source files in order. Four files alternating over
  two scopes give the counters 0, 0, 1, 1.
\<close>

theorem filecounter_is_index_div_scopes:
  "(create_branch_map ev t inputs = Inr bm \<longrightarrow>
      dom bm = {..< length (filter (eligible t) inputs)}
      \<and> (\<forall>k bd. bm k = Some bd \<longrightarrow> b_filecounter bd = k div length (scopes t))
      \<and> (distinct srcs
           \<and> (\<forall>i < length (filter (eligible t) inputs).
                 i div length (scopes t) < length srcs
                 \<and> source_of (filter (eligible t) inputs ! i) = srcs ! (i div length (scopes t)))
         \<longrightarrow> (\<forall>i j bi bj. bm i = Some bi \<and> bm j = Some bj
                  \<and> source_of (filter (eligible t) inputs ! i) = source_of (filter (eligible t) inputs ! j)
                \<longrightarrow> b_filecounter bi = b_filecounter bj)))
   \<and> filecounters (create_branch_map ev example_task alternating_inputs) [0, 1, 2, 3, 4]
       = Inr [Some 0, Some 0, Some 1, Some 1, None]"
proof (intro conjI impI)
  let ?E = "filter (eligible t) inputs"
  let ?n = "length (scopes t)"
  show "filecounters (create_branch_map ev example_task alternating_inputs) [0, 1, 2, 3, 4]
       = Inr [Some 0, Some 0, Some 1, Some 1, None]"
    by (rule alternating_filecounters)
  assume run: "create_branch_map ev t inputs = Inr bm"
  then obtain c where "branch_loop ev t inputs (Map.empty, 0) = Inr (bm, c)"
    by (auto simp: create_branch_map_def split: sum.splits)
  from branch_loop_Inr [OF this]
  have bm: "bm k = (if k < length ?E then Some (branch_of ev t (?E ! k) k) else None)" for k
    by simp
  show dom: "dom bm = {..< length ?E}"
    by (auto simp: bm dom_def)
  show cnt: "\<forall>k bd. bm k = Some bd \<longrightarrow> b_filecounter bd = k div ?n"
    by (auto simp: bm branch_of_def split: if_splits)
  assume grouped: "distinct srcs \<and> (\<forall>i < length ?E. i div ?n < length srcs
                 \<and> source_of (?E ! i) = srcs ! (i div ?n))"
  show "\<forall>i j bi bj. bm i = Some bi \<and> bm j = Some bj
                  \<and> source_of (?E ! i) = source_of (?E ! j)
                \<longrightarrow> b_filecounter bi = b_filecounter bj"
  proof (intro allI impI)
    fix i j bi bj
    assume h: "bm i = Some bi \<and> bm j = Some bj \<and> source_of (?E ! i) = source_of (?E ! j)"
    then have i: "i < length ?E" and j: "j < length ?E"
      using dom by (auto simp: dom_def set_eq_iff)
    have "srcs ! (i div ?n) = srcs ! (j div ?n)"
      using grouped i j h by metis
    then have "i div ?n = j div ?n"
      using grouped i j by (simp add: nth_eq_iff_index_eq)
    moreover have "b_filecounter bi = i div ?n" and "b_filecounter bj = j div ?n"
      using cnt h by blast+
    ultimately show "b_filecounter bi = b_filecounter bj"
      by simp
  qed
qed

lemma alternating_eligible: "filter (eligible example_task) alternating_inputs = alternating_inputs"
  by (simp add: eligible_def scope_of_def endswith_def example_task_def alternating_inputs_def)

text \<open>
  The theorem at the alternating inputs, with the file name as the source file: four
  branches, and branches 2 and 3, both of \<open>n_1.root\<close>, share the counter 1.
\<close>

theorem filecounter_is_index_div_scopes_witness:
  "distinct [''n_0.root'', ''n_1.root'']
   \<and> (case create_branch_map id example_task alternating_inputs of
        Inl e \<Rightarrow> False
      | Inr bm \<Rightarrow> dom bm = {..< 4}
                 \<and> map_option b_filecounter (bm 2) = Some 1
                 \<and> map_option b_filecounter (bm 2) = map_option b_filecounter (bm 3))"
proof -
  have "filecounters (create_branch_map id example_task alternating_inputs) [0, 1, 2, 3, 4]
          = Inr [Some 0, Some 0, Some 1, Some 1, None]"
    by (rule alternating_filecounters)
  then obtain bm where run: "create_branch_map id example_task alternating_inputs = Inr bm"
    and b2: "bm 2 \<noteq> None" and b3: "bm 3 \<noteq> None"
    by (auto simp: filecounters_def split: sum.splits)
  obtain x y where x: "bm 2 = Some x" and y: "bm 3 = Some y"
    using b2 b3 by auto
  have grouped: "\<forall>i < length (filter (eligible example_task) alternating_inputs).
                 i div length (scopes example_task) < length [''n_0.root'', ''n_1.root'']
                 \<and> file_name (filter (eligible example_task) alternating_inputs ! i)
                     = [''n_0.root'', ''n_1.root''] ! (i div length (scopes example_task))"
    unfolding alternating_eligible
    by (simp add: alternating_inputs_def example_task_def file_name_def eval_nat_numeral
        All_less_Suc three_div_two)
  have same: "file_name (filter (eligible example_task) alternating_inputs ! 2)
                = file_name (filter (eligible example_task) alternating_inputs ! 3)"
    unfolding alternating_eligible
    by (simp add: alternating_inputs_def file_name_def eval_nat_numeral)
  from filecounter_is_index_div_scopes [of id example_task alternating_inputs bm
      "[''n_0.root'', ''n_1.root'']" file_name] run
  have dom: "dom bm = {..< length (filter (eligible example_task) alternating_inputs)}"
    and cnt: "\<forall>k bd. bm k = Some bd \<longrightarrow> b_filecounter bd = k div length (scopes example_task)"
    and src: "distinct [''n_0.root'', ''n_1.root'']
           \<and> (\<forall>i < length (filter (eligible example_task) alternating_inputs).
                 i div length (scopes example_task) < length [''n_0.root'', ''n_1.root'']
                 \<and> file_name (filter (eligible example_task) alternating_inputs ! i)
                     = [''n_0.root'', ''n_1.root''] ! (i div length (scopes example_task)))
         \<longrightarrow> (\<forall>i j bi bj. bm i = Some bi \<and> bm j = Some bj
                  \<and> file_name (filter (eligible example_task) alternating_inputs ! i)
                    = file_name (filter (eligible example_task) alternating_inputs ! j)
                \<longrightarrow> b_filecounter bi = b_filecounter bj)"
    by blast+
  have "dom bm = {..< 4}"
    using dom unfolding alternating_eligible by (simp add: alternating_inputs_def)
  moreover have "b_filecounter x = 2 div length (scopes example_task)"
    using cnt x by blast
  then have "b_filecounter x = 1"
    by (simp add: example_task_def numeral_2_eq_2 [symmetric])
  moreover have "b_filecounter x = b_filecounter y"
  proof -
    have d: "distinct [''n_0.root'', ''n_1.root'']" by simp
    note all = mp [OF src conjI [OF d grouped]]
    from all [rule_format, of 2 x 3 y] x y same show ?thesis by blast
  qed
  ultimately show ?thesis
    by (simp add: run x y)
qed

section \<open>HTCondorWorkflow.htcondor_job_config\<close>

text \<open>
  The values of Python's \<open>float\<close>, and the comparison \<open>x > 0\<close> on them. The built-in
  \<open>float(s)\<close> on a \<open>str\<close> is a parameter of the model: \<open>None\<close> stands for the ValueError
  it raises on a text that is no number.
\<close>

datatype py_float = Finite real | PosInf | NegInf | NaN

fun gt_zero :: "py_float \<Rightarrow> bool" where
  "gt_zero (Finite r) = (0 < r)"
| "gt_zero PosInf = True"
| "gt_zero NegInf = False"
| "gt_zero NaN = False"

text \<open>
  The job descriptor: \<open>config.custom_content\<close>, a list of pairs, and
  \<open>config.render_variables\<close>, a dictionary whose values are a \<open>str\<close> or \<open>None\<close>.
\<close>

record job_config =
  custom_content :: "(string \<times> string) list"
  render_variables :: "string \<rightharpoonup> string option"

text \<open>
  What \<open>htcondor_job_config\<close> reads from outside the task: the process environment, the
  local and the remote storage, the path a \<open>WLCGFileTarget\<close> reports for the path it was
  built from, the result of the \<open>tar\<close> child and the module's \<open>startup_time\<close>.
\<close>

record job_world =
  os_getenv :: "string \<Rightarrow> string option"
  py_float_of :: "string \<Rightarrow> py_float option"
  os_expandvars :: "string \<Rightarrow> string"
  os_path_exists :: "string \<Rightarrow> bool"
  wlcg_exists :: "string \<Rightarrow> bool"
  wlcg_path_of :: "string \<Rightarrow> string"
  tar_popen :: "string list \<Rightarrow> int \<times> string \<times> string"
  startup_time :: string

text \<open>What the function does to the outside, in order.\<close>

datatype job_event =
    Makedirs string
  | Os_system string
  | Touch_parent string
  | Tar "string list"
  | Log_tar_error string \<comment> \<open>\<open>Error when taring job {}\<close>\<close>
  | Log_tar_output string \<comment> \<open>\<open>Output: {}\<close>\<close>
  | Log_tar_nonzero int \<comment> \<open>\<open>tar returned non-zero exit status {}\<close>\<close>
  | Job_rule string \<comment> \<open>\<open>console.rule(title)\<close>\<close>
  | Os_remove string
  | Copy_from_local string string \<comment> \<open>local source, remote target\<close>

text \<open>\<open>"{}".format(x)\<close> for a value that is a \<open>str\<close> or \<open>None\<close>.\<close>

fun format_opt :: "string option \<Rightarrow> string" where
  "format_opt None = ''None''"
| "format_opt (Some s) = s"

text \<open>
  The first part of the function: the custom content. \<open>request_gpus\<close> is appended only
  when \<open>float(self.htcondor_request_gpus) > 0\<close>.
\<close>

definition custom_content_of ::
  "job_world \<Rightarrow> 'a htcondor_workflow_scheme \<Rightarrow> error + (string \<times> string) list" where
  "custom_content_of w t =
     (let c1 = [(''accounting_group'', htcondor_accounting_group t)];
          c2 = c1 @ (if htcondor_requirements t \<noteq> []
                     then [(''Requirements'', htcondor_requirements t)] else []);
          c3 = c2 @ [(''+RemoteJob'', htcondor_remote_job t),
                     (''universe'', htcondor_universe t),
                     (''docker_image'', htcondor_docker_image t),
                     (''+RequestWalltime'', htcondor_walltime t),
                     (''x509userproxy'', htcondor_user_proxy t),
                     (''request_cpus'', htcondor_request_cpus t)]
      in case py_float_of w (htcondor_request_gpus t) of
           None \<Rightarrow> Inl ValueError
         | Some gpus \<Rightarrow>
             Inr (c3 @ (if gt_zero gpus then [(''request_gpus'', htcondor_request_gpus t)] else [])
                     @ [(''RequestMemory'', htcondor_request_memory t),
                        (''RequestDisk'', htcondor_request_disk t)]))"

text \<open>
  The second part: the directory of the tarballs is made when it is missing, and the job
  tarball is packed and uploaded when it is not in the remote storage. A \<open>tar\<close> that
  fails ends the function with \<open>Exception("tar failed")\<close>.
\<close>

definition tar_command :: "job_world \<Rightarrow> 'a htcondor_workflow_scheme \<Rightarrow> string list" where
  "tar_command w t =
     [''tar'', ''--exclude'', ''*.pyc'', ''--exclude'', ''law/.git'', ''-czf'',
      ''tarballs/'' @ production_tag t @ ''/'' @ class_name t @ ''/processor.tar.gz'',
      ''processor'',
      ''lawluigi_configs/'' @ format_opt (os_getenv w ''ANA_NAME'') @ ''_luigi.cfg'',
      ''lawluigi_configs/'' @ format_opt (os_getenv w ''ANA_NAME'') @ ''_law.cfg'',
      ''law''] @ additional_files t"

definition ensure_tarball ::
  "job_world \<Rightarrow> 'a htcondor_workflow_scheme \<Rightarrow> job_event list \<times> error option" where
  "ensure_tarball w t =
     (let tag_dir = ''tarballs/'' @ production_tag t;
          ev1 = (if \<not> os_path_exists w tag_dir then [Makedirs tag_dir] else []);
          tarball = production_tag t @ ''/'' @ class_name t @ ''/job_tarball/processor.tar.gz'';
          tarball_local = ''tarballs/'' @ production_tag t @ ''/'' @ class_name t @ ''/processor.tar.gz''
      in if \<not> wlcg_exists w tarball
         then (let command = tar_command w t;
                   (code, out, err) = tar_popen w command;
                   ev2 = ev1 @ [Os_system ''cd $ANALYSIS_PATH'', Touch_parent tarball_local, Tar command]
               in if code \<noteq> 0
                  then (ev2 @ [Log_tar_error err, Log_tar_output out, Log_tar_nonzero code,
                               Job_rule [], Os_remove tarball_local], Some TarFailed)
                  else (ev2 @ [Job_rule ''Successful tar!'', Touch_parent tarball,
                               Copy_from_local tarball_local tarball, Job_rule ''Tarball uploaded!''],
                        None))
         else (ev1, None))"

text \<open>
  The third part: the table of the environments.
  \<open>os.getenv("ENV_NAMES_LIST").split(";")\<close> raises AttributeError without the variable;
  the last element is dropped, duplicates are removed keeping the first occurrence, and
  \<open>dict(...)\<close> needs every \<open>env.split(",")\<close> to have two elements, raising ValueError
  otherwise; a later pair overrides an earlier one with the same key.
\<close>

fun dict_of_splits :: "string list list \<Rightarrow> error + (string \<rightharpoonup> string)" where
  "dict_of_splits [] = Inr Map.empty"
| "dict_of_splits ([k, v] # rest) =
     (case dict_of_splits rest of
        Inl e \<Rightarrow> Inl e
      | Inr d \<Rightarrow> Inr ([k \<mapsto> v] ++ d))"
| "dict_of_splits (other # rest) = Inl ValueError"

definition env_dict_of :: "job_world \<Rightarrow> error + (string \<rightharpoonup> string)" where
  "env_dict_of w =
     (case os_getenv w ''ENV_NAMES_LIST'' of
        None \<Rightarrow> Inl AttributeError
      | Some s \<Rightarrow>
          (let env_list = rev (remdups (rev (butlast (split_on CHR '';'' s))))
           in dict_of_splits (map (split_on CHR '','') env_list)))"

text \<open>
  The whole function. The parameters \<open>job_num\<close> and \<open>branches\<close> are not read by it. The
  custom content of the incoming \<open>config\<close> (here \<open>cfg\<close>) is replaced, its render variables are
  extended.
\<close>

definition htcondor_job_config ::
  "job_world \<Rightarrow> 'a htcondor_workflow_scheme \<Rightarrow> job_config \<Rightarrow> job_event list \<times> (error + job_config)" where
  "htcondor_job_config w t cfg =
     (case custom_content_of w t of
        Inl e \<Rightarrow> ([], Inl e)
      | Inr content \<Rightarrow>
          (case ensure_tarball w t of
             (ev, Some e) \<Rightarrow> (ev, Inl e)
           | (ev, None) \<Rightarrow>
               (case env_dict_of w of
                  Inl e \<Rightarrow> (ev, Inl e)
                | Inr env_dict \<Rightarrow>
                    (case env_dict (ENV_NAME t) of
                       None \<Rightarrow> (ev, Inl (KeyError (ENV_NAME t)))
                     | Some use_cvmfs \<Rightarrow>
                         (let tarball = production_tag t @ ''/'' @ class_name t
                                          @ ''/job_tarball/processor.tar.gz'';
                              tarball_env = ''env_tarballs/'' @ ENV_NAME t @ ''.tar.gz'';
                              ev_env = (if use_cvmfs = ''False'' \<and> \<not> wlcg_exists w tarball_env
                                        then [Touch_parent tarball_env,
                                              Copy_from_local
                                                (''tarballs/conda_envs/'' @ ENV_NAME t @ ''.tar.gz'')
                                                tarball_env]
                                        else []);
                              rv1 = (render_variables cfg)
                                      (''USER'' \<mapsto> Some (local_user t),
                                       ''ANA_NAME'' \<mapsto> os_getenv w ''ANA_NAME'',
                                       ''ENV_NAME'' \<mapsto> Some (ENV_NAME t),
                                       ''TAG'' \<mapsto> Some (production_tag t),
                                       ''USE_CVMFS'' \<mapsto> Some use_cvmfs,
                                       ''TARBALL_PATH'' \<mapsto>
                                          Some (os_expandvars w (wlcg_path t) @ wlcg_path_of w tarball));
                              rv2 = (if use_cvmfs = ''False''
                                     then rv1(''TARBALL_ENV_PATH'' \<mapsto>
                                            Some (os_expandvars w (wlcg_path t) @ wlcg_path_of w tarball_env))
                                     else rv1);
                              rv3 = rv2(''LOCAL_TIMESTAMP'' \<mapsto> Some (startup_time w))
                          in (ev @ ev_env,
                              Inr (cfg\<lparr>custom_content := content, render_variables := rv3\<rparr>)))))))"

text \<open>
  An outside for the scenarios: the job tarball is in the remote storage, the environment
  \<open>env\<close> is listed as available, and \<open>float\<close> reads the texts \<open>0\<close> and \<open>1\<close>.
\<close>

definition example_world :: job_world where
  "example_world =
     \<lparr>os_getenv = (\<lambda>k. if k = ''ENV_NAMES_LIST'' then Some ''env,True;''
                       else if k = ''ANA_NAME'' then Some ''ana'' else None),
      py_float_of = (\<lambda>s. if s = ''0'' then Some (Finite 0)
                         else if s = ''1'' then Some (Finite 1) else None),
      os_expandvars = (\<lambda>s. s),
      os_path_exists = (\<lambda>p. True),
      wlcg_exists = (\<lambda>p. True),
      wlcg_path_of = (\<lambda>p. ''/'' @ p),
      tar_popen = (\<lambda>c. (0, [], [])),
      startup_time = ''2024_01_01_00_00_00_000000''\<rparr>"

definition empty_config :: job_config where
  "empty_config = \<lparr>custom_content = [], render_variables = Map.empty\<rparr>"

section \<open>Properties of the job configuration\<close>

lemma job_config_content:
  assumes "htcondor_job_config w t cfg = (evs, Inr cfg')"
  shows "custom_content_of w t = Inr (custom_content cfg')"
  using assms
  by (auto simp: htcondor_job_config_def Let_def split: sum.splits prod.splits option.splits)

lemma custom_content_gpus:
  assumes "custom_content_of w t = Inr content" and "py_float_of w (htcondor_request_gpus t) = Some gpus"
  shows "(''request_gpus'' \<in> fst ` set content) = gt_zero gpus"
    and "gt_zero gpus \<longrightarrow> (''request_gpus'', htcondor_request_gpus t) \<in> set content"
  using assms by (auto simp: custom_content_of_def Let_def split: if_splits)

text \<open>
  C6. Whenever \<open>htcondor_job_config\<close> returns a descriptor, its custom content has a
  \<open>request_gpus\<close> entry exactly when the requested number read by \<open>float\<close> is greater
  than zero, and the entry carries the requested text; so for a count (a number that is
  not negative) the entry is missing exactly when the count is zero.
\<close>

theorem request_gpus_iff_positive:
  assumes "htcondor_job_config w t cfg = (evs, Inr cfg')"
    and "py_float_of w (htcondor_request_gpus t) = Some gpus"
  shows "(''request_gpus'' \<in> fst ` set (custom_content cfg')) = gt_zero gpus
     \<and> (gt_zero gpus \<longrightarrow> (''request_gpus'', htcondor_request_gpus t) \<in> set (custom_content cfg'))
     \<and> (\<forall>g. gpus = Finite g \<and> 0 \<le> g \<longrightarrow>
            (''request_gpus'' \<notin> fst ` set (custom_content cfg')) = (g = 0))"
proof -
  note c = job_config_content [OF assms(1)]
  have a: "(''request_gpus'' \<in> fst ` set (custom_content cfg')) = gt_zero gpus"
    using custom_content_gpus(1) [OF c assms(2)] .
  have b: "gt_zero gpus \<longrightarrow> (''request_gpus'', htcondor_request_gpus t) \<in> set (custom_content cfg')"
    using custom_content_gpus(2) [OF c assms(2)] .
  have "(''request_gpus'' \<notin> fst ` set (custom_content cfg')) = (g = 0)" if "gpus = Finite g \<and> 0 \<le> g" for g
    using a that by auto
  with a b show ?thesis by blast
qed


lemma example_env_dict: "env_dict_of example_world = Inr [''env'' \<mapsto> ''True'']"
  by (simp add: env_dict_of_def example_world_def)

lemma example_world_reads:
  "py_float_of example_world ''0'' = Some (Finite 0)"
  "py_float_of example_world ''1'' = Some (Finite 1)"
  "os_path_exists example_world p = True"
  "wlcg_exists example_world p = True"
  by (simp_all add: example_world_def)

lemma example_run:
  "htcondor_request_gpus t \<in> {''0'', ''1''} \<Longrightarrow> ENV_NAME t = ''env'' \<Longrightarrow>
   \<exists>cfg'. htcondor_job_config example_world t empty_config = ([], Inr cfg')"
  by (auto simp: htcondor_job_config_def example_env_dict custom_content_of_def ensure_tarball_def
      Let_def example_world_reads)

text \<open>
  The theorem at the requests \<open>0\<close> and \<open>1\<close>: both return a descriptor, without and with
  the entry.
\<close>

theorem request_gpus_iff_positive_witness:
  "''request_gpus'' \<notin> fst ` set (custom_content (projr (snd
       (htcondor_job_config example_world example_task empty_config))))
   \<and> (''request_gpus'', ''1'') \<in> set (custom_content (projr (snd
       (htcondor_job_config example_world (example_task\<lparr>htcondor_request_gpus := ''1''\<rparr>)
          empty_config))))"
proof -
  let ?t1 = "example_task\<lparr>htcondor_request_gpus := ''1''\<rparr>"
  obtain c0 where r0: "htcondor_job_config example_world example_task empty_config = ([], Inr c0)"
    using example_run [of example_task] by (auto simp: example_task_def)
  obtain c1 where r1: "htcondor_job_config example_world ?t1 empty_config = ([], Inr c1)"
    using example_run [of ?t1] by (auto simp: example_task_def)
  have f0: "py_float_of example_world (htcondor_request_gpus example_task) = Some (Finite 0)"
    by (simp add: example_world_reads example_task_def)
  have f1: "py_float_of example_world (htcondor_request_gpus ?t1) = Some (Finite 1)"
    by (simp add: example_world_reads)
  have "''request_gpus'' \<notin> fst ` set (custom_content c0)"
    using request_gpus_iff_positive [OF r0 f0] by simp
  moreover have "(''request_gpus'', ''1'') \<in> set (custom_content c1)"
    using request_gpus_iff_positive [OF r1 f1] by simp
  ultimately show ?thesis by (simp add: r0 r1)
qed

section \<open>Task.local_path and PuppetMaster\<close>

text \<open>
  \<open>os.path.join\<close> on POSIX: a component that starts with \<open>/\<close> replaces what came
  before; otherwise it is appended, after a \<open>/\<close> unless the path so far is empty or ends
  with one.
\<close>

definition path_join2 :: "string \<Rightarrow> string \<Rightarrow> string" where
  "path_join2 path b =
     (if b \<noteq> [] \<and> hd b = CHR ''/'' then b
      else if path = [] \<or> last path = CHR ''/'' then path @ b
      else path @ ''/'' @ b)"

definition os_path_join :: "string \<Rightarrow> string list \<Rightarrow> string" where
  "os_path_join a ps = foldl path_join2 a ps"

text \<open>
  \<open>Task.local_path(*path)\<close>: \<open>os.getenv("ANALYSIS_DATA_PATH")\<close>, the production tag, the
  class name and the given components, joined. Without the variable the first component
  is \<open>None\<close> and \<open>os.path.join\<close> raises TypeError. \<open>local_target\<close> wraps the path into a
  file target.
\<close>

definition local_path :: "string option \<Rightarrow> 'a task_scheme \<Rightarrow> string list \<Rightarrow> error + string" where
  "local_path analysis_data_path t path =
     (case analysis_data_path of
        None \<Rightarrow> Inl TypeError
      | Some d \<Rightarrow> Inr (os_path_join d ([production_tag t, class_name t] @ path)))"

text \<open>
  A \<open>PuppetMaster\<close> task; of its \<open>puppet_task\<close> the model keeps the class name and, as an
  argument of the functions below, the paths of its flattened output
  (\<open>[targ.path for targ in flatten_collections(out)]\<close>) at the time of the call.
\<close>

record puppet_master = task +
  puppet_class_name :: string

text \<open>
  The local files that hold a manifest: a path has the list of strings stored in its JSON
  file, or no file. \<open>target.remove()\<close> belongs to the storage layer and is a parameter: it
  returns the exception it raises, if any, and the storage after the attempt.
\<close>

type_synonym storage = "string \<rightharpoonup> string list"

type_synonym remove_fn = "storage \<Rightarrow> string \<Rightarrow> error option \<times> storage"

text \<open>
  \<open>Log_paths a b\<close> is the logged list \<open>list(a) + list(b)\<close>: the elements of the set \<open>a\<close>
  followed by those of the set \<open>b\<close>, each in the order the set gives them.
\<close>

datatype pm_event =
    Log_mismatch \<comment> \<open>\<open>Missmatch in output files found. Removing checkfile.\<close>\<close>
  | Log_paths "string set" "string set"
  | Remove_target string
  | Yield_puppet \<comment> \<open>\<open>print("Add task to shedduler: ", puppet)\<close> and \<open>yield puppet\<close>\<close>
  | Dump string "string list" \<comment> \<open>\<open>target.dump(target_paths, formatter="json")\<close>\<close>

definition manifest_filename :: "puppet_master \<Rightarrow> string" where
  "manifest_filename t = join ''_'' ([puppet_class_name t] @ identifiers t) @ ''.json''"

text \<open>\<open>PuppetMaster.output\<close>: the result is the target, given by its path.\<close>

definition puppet_output ::
  "remove_fn \<Rightarrow> string option \<Rightarrow> puppet_master \<Rightarrow> string list \<Rightarrow> storage
     \<Rightarrow> pm_event list \<times> (error + string) \<times> storage" where
  "puppet_output remove analysis_data_path t current fs =
     (case local_path analysis_data_path t [manifest_filename t] of
        Inl e \<Rightarrow> ([], Inl e, fs)
      | Inr target \<Rightarrow>
          (case fs target of
             None \<Rightarrow> ([], Inr target, fs)
           | Some loaded \<Rightarrow>
               (let target_paths = set current;
                    target_paths_from_file = set loaded
                in if target_paths \<noteq> target_paths_from_file
                   then (let evs = [Log_mismatch,
                                    Log_paths (target_paths_from_file - target_paths)
                                              (target_paths - target_paths_from_file),
                                    Remove_target target];
                             (raised, fs') = remove fs target
                         in case raised of
                              Some e \<Rightarrow> (evs, Inl e, fs')
                            | None \<Rightarrow>
                                if fs' target \<noteq> None then (evs, Inl (CouldNotDelete target), fs')
                                else (evs, Inr target, fs'))
                   else ([], Inr target, fs))))"

text \<open>
  \<open>PuppetMaster.run\<close>: the wrapped task is handed to the scheduler; when the function is
  resumed, the paths of its output are written to the target that \<open>self.output()\<close>
  returns.
\<close>

definition puppet_run ::
  "remove_fn \<Rightarrow> string option \<Rightarrow> puppet_master \<Rightarrow> string list \<Rightarrow> storage
     \<Rightarrow> pm_event list \<times> (error + unit) \<times> storage" where
  "puppet_run remove analysis_data_path t current fs =
     (case puppet_output remove analysis_data_path t current fs of
        (evs, Inl e, fs') \<Rightarrow> (Yield_puppet # evs, Inl e, fs')
      | (evs, Inr target, fs') \<Rightarrow>
          (Yield_puppet # evs @ [Dump target current], Inr (), fs'(target \<mapsto> current)))"

text \<open>
  Inputs for the scenarios: a supervisor of a \<open>CROWNFriends\<close> task, its manifest under
  \<open>/data\<close>, a \<open>remove\<close> that deletes the file and one that leaves it in place without
  raising.
\<close>

definition example_puppet_master :: puppet_master where
  "example_puppet_master =
     \<lparr>class_name = ''PuppetMaster'', local_user = ''user'', wlcg_path = ''root://x'',
      production_tag = ''v1'', identifiers = [''n'', ''fr''], puppet_class_name = ''CROWNFriends''\<rparr>"

definition remove_works :: remove_fn where
  "remove_works fs target = (None, fs(target := None))"

definition remove_leaves :: remove_fn where
  "remove_leaves fs target = (None, fs)"

definition example_manifest :: string where
  "example_manifest = ''/data/v1/PuppetMaster/CROWNFriends_n_fr.json''"

section \<open>Properties of the output supervisor\<close>

text \<open>
  C7. When the manifest exists, \<open>output\<close> compares the stored path set with the current one.
  If they differ it logs the mismatch and the paths only in the stored set followed by
  the paths only in the current set, and removes the manifest; the storage is then what
  the removal left, and the call raises when the removal raised or, with
  \<open>File ... could not be deleted\<close>, when the manifest is still there. If the sets are
  equal nothing is logged and the storage is unchanged.
\<close>

theorem puppet_output_consistency_check:
  assumes "local_path analysis_data_path t [manifest_filename t] = Inr target"
    and "fs target = Some stored"
    and "remove fs target = (raised, fs')"
  shows "(set stored \<noteq> set current \<longrightarrow>
            fst (puppet_output remove analysis_data_path t current fs)
              = [Log_mismatch, Log_paths (set stored - set current) (set current - set stored),
                 Remove_target target]
            \<and> snd (snd (puppet_output remove analysis_data_path t current fs)) = fs'
            \<and> fst (snd (puppet_output remove analysis_data_path t current fs))
                = (case raised of
                     Some e \<Rightarrow> Inl e
                   | None \<Rightarrow> if fs' target \<noteq> None then Inl (CouldNotDelete target) else Inr target))
       \<and> (set stored = set current \<longrightarrow>
            puppet_output remove analysis_data_path t current fs = ([], Inr target, fs))"
  using assms
  by (auto simp: puppet_output_def Let_def split: option.splits)

lemma example_manifest_path:
  "local_path (Some ''/data'') example_puppet_master [manifest_filename example_puppet_master]
     = Inr example_manifest"
  by (simp add: local_path_def os_path_join_def path_join2_def manifest_filename_def
      example_puppet_master_def example_manifest_def)

text \<open>
  The theorem at a manifest that holds \<open>a\<close> and \<open>b\<close>: against \<open>b\<close> and \<open>c\<close> the
  difference is logged and the manifest removed, or the call raises when the file stays;
  against \<open>b\<close> and \<open>a\<close> nothing happens.
\<close>

theorem puppet_output_consistency_check_witness:
  "puppet_output remove_works (Some ''/data'') example_puppet_master [''b'', ''c'']
       [example_manifest \<mapsto> [''a'', ''b'']]
     = ([Log_mismatch, Log_paths {''a''} {''c''}, Remove_target example_manifest],
        Inr example_manifest, Map.empty)
   \<and> fst (snd (puppet_output remove_leaves (Some ''/data'') example_puppet_master [''b'', ''c'']
       [example_manifest \<mapsto> [''a'', ''b'']]))
     = Inl (CouldNotDelete example_manifest)
   \<and> puppet_output remove_leaves (Some ''/data'') example_puppet_master [''b'', ''a'']
       [example_manifest \<mapsto> [''a'', ''b'']]
     = ([], Inr example_manifest, [example_manifest \<mapsto> [''a'', ''b'']])"
proof -
  let ?fs = "[example_manifest \<mapsto> [''a'', ''b'']]"
  have stored: "?fs example_manifest = Some [''a'', ''b'']" by simp
  have works: "remove_works ?fs example_manifest = (None, Map.empty)"
    by (simp add: remove_works_def)
  have leaves: "remove_leaves ?fs example_manifest = (None, ?fs)"
    by (simp add: remove_leaves_def)
  have ne: "set [''a'', ''b''] \<noteq> set [''b'', ''c'']" by code_simp
  have eq: "set [''a'', ''b''] = set [''b'', ''a'']" by code_simp
  have d1: "set [''a'', ''b''] - set [''b'', ''c''] = {''a''}" by code_simp
  have d2: "set [''b'', ''c''] - set [''a'', ''b''] = {''c''}" by code_simp
  note a = puppet_output_consistency_check [of "Some ''/data''" example_puppet_master
      example_manifest ?fs "[''a'', ''b'']" remove_works None Map.empty "[''b'', ''c'']",
      OF example_manifest_path stored works, THEN conjunct1, THEN mp, OF ne, unfolded d1 d2]
  note b = puppet_output_consistency_check [of "Some ''/data''" example_puppet_master
      example_manifest ?fs "[''a'', ''b'']" remove_leaves None ?fs "[''b'', ''c'']",
      OF example_manifest_path stored leaves, THEN conjunct1, THEN mp, OF ne]
  note c = puppet_output_consistency_check [of "Some ''/data''" example_puppet_master
      example_manifest ?fs "[''a'', ''b'']" remove_leaves None ?fs "[''b'', ''a'']",
      OF example_manifest_path stored leaves, THEN conjunct2, THEN mp, OF eq]
  have "puppet_output remove_works (Some ''/data'') example_puppet_master [''b'', ''c''] ?fs
     = ([Log_mismatch, Log_paths {''a''} {''c''}, Remove_target example_manifest],
        Inr example_manifest, Map.empty)"
    using a by (simp add: prod_eq_iff)
  moreover have "fst (snd (puppet_output remove_leaves (Some ''/data'') example_puppet_master [''b'', ''c''] ?fs))
     = Inl (CouldNotDelete example_manifest)"
    using b by simp
  moreover note c
  ultimately show ?thesis by blast
qed

text \<open>
  C8. After a \<open>run\<close> that returns, the manifest holds the paths that were written, and an
  \<open>output\<close> call with the same declared paths finds the two sets equal: it logs nothing,
  removes nothing and leaves the storage as it is.
\<close>

theorem puppet_run_round_trip:
  assumes "puppet_run remove analysis_data_path t current fs = (evs, Inr (), fs')"
  shows "\<exists>target. local_path analysis_data_path t [manifest_filename t] = Inr target
           \<and> fs' target = Some current
           \<and> puppet_output remove analysis_data_path t current fs' = ([], Inr target, fs')"
proof -
  obtain evs0 target fs0 where out: "puppet_output remove analysis_data_path t current fs = (evs0, Inr target, fs0)"
    and fs': "fs' = fs0(target \<mapsto> current)"
    using assms by (auto simp: puppet_run_def split: prod.splits sum.splits)
  have lp: "local_path analysis_data_path t [manifest_filename t] = Inr target"
    using out by (auto simp: puppet_output_def Let_def split: sum.splits option.splits prod.splits if_splits)
  show ?thesis
    using lp fs' by (auto simp: puppet_output_def Let_def)
qed


text \<open>The theorem at a first run that writes the paths \<open>a\<close> and \<open>b\<close>.\<close>

theorem puppet_run_round_trip_witness:
  "puppet_run remove_works (Some ''/data'') example_puppet_master [''a'', ''b''] Map.empty
     = ([Yield_puppet, Dump example_manifest [''a'', ''b'']], Inr (),
        [example_manifest \<mapsto> [''a'', ''b'']])
   \<and> puppet_output remove_works (Some ''/data'') example_puppet_master [''a'', ''b'']
       [example_manifest \<mapsto> [''a'', ''b'']]
     = ([], Inr example_manifest, [example_manifest \<mapsto> [''a'', ''b'']])"
proof -
  have run: "puppet_run remove_works (Some ''/data'') example_puppet_master [''a'', ''b''] Map.empty
     = ([Yield_puppet, Dump example_manifest [''a'', ''b'']], Inr (),
        [example_manifest \<mapsto> [''a'', ''b'']])"
    by (simp add: puppet_run_def puppet_output_def example_manifest_path)
  from puppet_run_round_trip [OF run] example_manifest_path
  have "puppet_output remove_works (Some ''/data'') example_puppet_master [''a'', ''b'']
       [example_manifest \<mapsto> [''a'', ''b'']]
     = ([], Inr example_manifest, [example_manifest \<mapsto> [''a'', ''b'']])"
    by auto
  with run show ?thesis by blast
qed

section \<open>CROWNBuild.run\<close>

text \<open>\<open>convert_to_comma_seperated\<close>, on a \<open>str\<close> or a list of \<open>str\<close>.\<close>

fun convert_to_comma_seperated :: "str_or_list \<Rightarrow> string" where
  "convert_to_comma_seperated (Str s) = s"
| "convert_to_comma_seperated (Lst [x]) = x"
| "convert_to_comma_seperated (Lst xs) = join '','' xs"

text \<open>
  The parameters of a \<open>CROWNBuild\<close> task. Its base class \<open>CROWNBuildBase\<close> is not among
  the sources: the parameters \<open>run\<close> reads are fields here, \<open>analysis\<close>, \<open>config\<close>,
  \<open>threads\<close>, \<open>install_dir\<close> and \<open>build_dir\<close> as the text \<open>str(...)\<close> gives for them, and
  the two methods \<open>setup_build_environment\<close> and \<open>upload_tarball\<close> are parameters of the
  model, with the exception they raise, if any.
\<close>

record crown_build = task +
  all_sampletypes :: str_or_list
  all_eras :: str_or_list
  shifts :: str_or_list
  scopes :: str_or_list
  analysis :: string
  config :: string
  threads :: string
  install_dir :: string
  build_dir :: string

record build_world =
  build_path_exists :: "string \<Rightarrow> bool"
  os_abspath :: "string \<Rightarrow> string"
  setup_build_environment :: "string \<Rightarrow> string \<Rightarrow> string \<Rightarrow> error + (environ \<times> string \<times> string)"
  upload_tarball :: "string \<Rightarrow> string \<Rightarrow> nat \<Rightarrow> error option"
  which_cmake :: "environ \<Rightarrow> int \<times> string \<times> string"
  source_popen :: popen_fn
  compile_popen :: popen_stream_fn

text \<open>
  What \<open>run\<close> does to the outside, in order. \<open>Build_log label text\<close> is a console entry
  \<open>label text\<close>; \<open>Runner e\<close> is an event of the command runner.
\<close>

datatype build_event =
    Log_existing string \<comment> \<open>\<open>tarball already existing in tarball directory {}\<close>\<close>
  | Upload_tarball string string nat \<comment> \<open>remote target, local file, retries\<close>
  | Build_rule string
  | Setup_build_environment string string string
  | Which_cmake
  | Build_log string string
  | Runner event

text \<open>\<open>os.path.basename\<close>: what follows the last \<open>/\<close>.\<close>

definition basename :: "string \<Rightarrow> string" where
  "basename p = last (split_on CHR ''/'' p)"

text \<open>\<open>Task.remote_path(*path)\<close> and the path of \<open>CROWNBuild.output()\<close>.\<close>

definition remote_path :: "'a task_scheme \<Rightarrow> string list \<Rightarrow> string" where
  "remote_path t path = os_path_join (production_tag t) (class_name t # path)"

definition build_output :: "crown_build \<Rightarrow> string" where
  "build_output t = remote_path t [''crown_'' @ analysis t @ ''_'' @ config t @ ''.tar.gz'']"

definition build_tag :: "crown_build \<Rightarrow> string" where
  "build_tag t = production_tag t @ ''/CROWN_'' @ analysis t @ ''_'' @ config t"

text \<open>The file tested by \<open>os.path.exists\<close>: the bundle's name under the install directory.\<close>

definition local_tarball :: "crown_build \<Rightarrow> string" where
  "local_tarball t = os_path_join (os_path_join (install_dir t) [build_tag t]) [basename (build_output t)]"

definition compile_command :: "build_world \<Rightarrow> crown_build \<Rightarrow> string \<Rightarrow> string \<Rightarrow> string list" where
  "compile_command w t install build =
     [''bash'',
      os_path_join (os_abspath w ''processor'') [''tasks'', ''scripts'', ''compile_crown.sh''],
      os_abspath w ''CROWN'',
      analysis t,
      config t,
      convert_to_comma_seperated (all_sampletypes t),
      convert_to_comma_seperated (all_eras t),
      convert_to_comma_seperated (scopes t),
      convert_to_comma_seperated (shifts t),
      install,
      build,
      basename (build_output t),
      threads t]"

text \<open>The branch that builds: reached when the local file is absent.\<close>

definition build_and_upload ::
  "build_world \<Rightarrow> crown_build \<Rightarrow> string \<Rightarrow> (build_event list \<times> (error + unit)) option" where
  "build_and_upload w t crownlib =
     (let install0 = os_path_join (install_dir t) [build_tag t];
          build0 = os_path_join (build_dir t) [build_tag t];
          ev0 = [Build_rule ''Building new CROWN tarball'',
                 Setup_build_environment build0 install0 crownlib]
      in case setup_build_environment w build0 install0 crownlib of
           Inl e \<Rightarrow> Some (ev0, Inl e)
         | Inr (my_env, build, install) \<Rightarrow>
             (let (code, cmake_executable, err) = which_cmake w my_env;
                  ev1 = ev0 @
                    [Which_cmake,
                     Build_rule ''Starting cmake step for CROWN'',
                     Build_log ''Using cmake'' (filter (\<lambda>c. c \<noteq> CHR 0x0A) cmake_executable),
                     Build_log ''Using CROWN'' (os_abspath w ''CROWN''),
                     Build_log ''Using build_directory'' build,
                     Build_log ''Using install directory'' install,
                     Build_log ''Settings used:'' [],
                     Build_log ''Threads:'' (threads t),
                     Build_log ''Analysis:'' (analysis t),
                     Build_log ''Config:'' (config t),
                     Build_log ''Sampletypes:'' (convert_to_comma_seperated (all_sampletypes t)),
                     Build_log ''Eras:'' (convert_to_comma_seperated (all_eras t)),
                     Build_log ''Scopes:'' (convert_to_comma_seperated (scopes t)),
                     Build_log ''Shifts:'' (convert_to_comma_seperated (shifts t)),
                     Build_rule []]
              in case run_command_readable (source_popen w) (compile_popen w)
                        (Lst (compile_command w t install build)) (Lst []) None of
                   None \<Rightarrow> None
                 | Some (revs, Inl e) \<Rightarrow> Some (ev1 @ map Runner revs, Inl e)
                 | Some (revs, Inr u) \<Rightarrow>
                     (let local = os_path_join install [basename (build_output t)];
                          ev2 = ev1 @ map Runner revs
                                  @ [Build_rule ''Finished CROWNBuild'',
                                     Upload_tarball (build_output t) local 10]
                      in case upload_tarball w (build_output t) local 10 of
                           Some e \<Rightarrow> Some (ev2, Inl e)
                         | None \<Rightarrow> Some (ev2, Inr ()))))"

text \<open>
  \<open>CROWNBuild.run\<close>; \<open>crownlib\<close> is \<open>self.input()["crownlib"]\<close>. The result is \<open>None\<close>
  when the compile script never ends.
\<close>

definition crown_build_run ::
  "build_world \<Rightarrow> crown_build \<Rightarrow> string \<Rightarrow> (build_event list \<times> (error + unit)) option" where
  "crown_build_run w t crownlib =
     (let install0 = os_path_join (install_dir t) [build_tag t]
      in if build_path_exists w (os_path_join install0 [basename (build_output t)])
         then (let local = os_path_join (os_abspath w install0) [basename (build_output t)];
                   ev = [Log_existing install0, Upload_tarball (build_output t) local 10]
               in case upload_tarball w (build_output t) local 10 of
                    Some e \<Rightarrow> Some (ev, Inl e)
                  | None \<Rightarrow> Some (ev, Inr ()))
         else build_and_upload w t crownlib)"

text \<open>An event that starts a child of the command runner: the compile script.\<close>

fun is_spawn :: "build_event \<Rightarrow> bool" where
  "is_spawn (Runner (Spawn line env cwd)) = True"
| "is_spawn other = False"

text \<open>
  Inputs for the scenarios: a build task, and an outside in which the bundle is staged
  under the install directory or not, the build environment is set up, the compile script
  ends and the upload succeeds.
\<close>

definition example_build :: crown_build where
  "example_build =
     \<lparr>class_name = ''CROWNBuild'', local_user = ''user'', wlcg_path = ''root://x'',
      production_tag = ''v1'', identifiers = [],
      all_sampletypes = Lst [''mc'', ''data''], all_eras = Lst [''2018''], shifts = Str ''None'',
      scopes = Lst [''scope_a'', ''scope_b''], analysis = ''tau'', config = ''config'',
      threads = ''4'', install_dir = ''/install'', build_dir = ''/build''\<rparr>"

definition example_build_world :: "bool \<Rightarrow> build_world" where
  "example_build_world staged =
     \<lparr>build_path_exists = (\<lambda>p. staged \<and> p = ''/install/v1/CROWN_tau_config/crown_tau_config.tar.gz''),
      os_abspath = (\<lambda>p. if p \<noteq> [] \<and> hd p = CHR ''/'' then p else ''/work/'' @ p),
      setup_build_environment = (\<lambda>build install crownlib. Inr (Map.empty, build, install)),
      upload_tarball = (\<lambda>target local retries. None),
      which_cmake = (\<lambda>env. (0, ''/usr/bin/cmake'', [])),
      source_popen = (\<lambda>cmd env cwd. (0, [], [])),
      compile_popen = (\<lambda>cmd env cwd. [([(Stdout, ''done'')], Some 0)])\<rparr>"

section \<open>Properties of the artifact cache\<close>

lemma build_and_upload_spawns:
  assumes "build_and_upload w t crownlib = Some (evs, r)"
    and "setup_build_environment w (os_path_join (build_dir t) [build_tag t])
           (os_path_join (install_dir t) [build_tag t]) crownlib = Inr (my_env, build, install)"
  shows "Runner (Spawn (join '' '' (compile_command w t install build)) None None) \<in> set evs"
  using assms
  by (auto simp: build_and_upload_def run_command_readable_def stream_child_def Let_def compile_command_def
      split: prod.splits sum.splits option.splits)

text \<open>
  C9. When the bundle's file exists under the install directory of the task's tag,
  \<open>run\<close> logs that and uploads that file (its absolute path) with ten retries, and does
  nothing else: no child is started. A run that starts the compile script is a run that
  found the file absent; and when the file is absent, the build environment is set up and
  the run returns, the compile script has been started with the command of the task.
\<close>

theorem crown_build_reuses_local_tarball:
  "(build_path_exists w (local_tarball t) \<longrightarrow>
      crown_build_run w t crownlib
        = Some ([Log_existing (os_path_join (install_dir t) [build_tag t]),
                 Upload_tarball (build_output t)
                   (os_path_join (os_abspath w (os_path_join (install_dir t) [build_tag t]))
                      [basename (build_output t)]) 10],
                case upload_tarball w (build_output t)
                       (os_path_join (os_abspath w (os_path_join (install_dir t) [build_tag t]))
                          [basename (build_output t)]) 10 of
                  Some e \<Rightarrow> Inl e
                | None \<Rightarrow> Inr ()))
   \<and> (crown_build_run w t crownlib = Some (evs, r) \<and> list_ex is_spawn evs \<longrightarrow>
        \<not> build_path_exists w (local_tarball t))
   \<and> (\<not> build_path_exists w (local_tarball t)
        \<and> crown_build_run w t crownlib = Some (evs, r)
        \<and> setup_build_environment w (os_path_join (build_dir t) [build_tag t])
              (os_path_join (install_dir t) [build_tag t]) crownlib = Inr (my_env, build, install) \<longrightarrow>
        Runner (Spawn (join '' '' (compile_command w t install build)) None None) \<in> set evs)"
proof (intro conjI impI)
  let ?local = "os_path_join (os_abspath w (os_path_join (install_dir t) [build_tag t]))
                      [basename (build_output t)]"
  let ?reuse = "Some ([Log_existing (os_path_join (install_dir t) [build_tag t]),
                 Upload_tarball (build_output t) ?local 10],
                case upload_tarball w (build_output t) ?local 10 of
                  Some e \<Rightarrow> Inl e
                | None \<Rightarrow> Inr ())"
  have reuse: "crown_build_run w t crownlib = ?reuse" if "build_path_exists w (local_tarball t)"
    using that by (simp add: crown_build_run_def local_tarball_def Let_def split: option.splits)
  show "crown_build_run w t crownlib = ?reuse" if "build_path_exists w (local_tarball t)"
    using that by (rule reuse)
  show "\<not> build_path_exists w (local_tarball t)"
    if h: "crown_build_run w t crownlib = Some (evs, r) \<and> list_ex is_spawn evs"
  proof
    assume "build_path_exists w (local_tarball t)"
    from reuse [OF this] h have "evs = [Log_existing (os_path_join (install_dir t) [build_tag t]),
                 Upload_tarball (build_output t) ?local 10]"
      by simp
    with h show False by simp
  qed
  show "Runner (Spawn (join '' '' (compile_command w t install build)) None None) \<in> set evs"
    if h: "\<not> build_path_exists w (local_tarball t)
        \<and> crown_build_run w t crownlib = Some (evs, r)
        \<and> setup_build_environment w (os_path_join (build_dir t) [build_tag t])
              (os_path_join (install_dir t) [build_tag t]) crownlib = Inr (my_env, build, install)"
  proof -
    have "build_and_upload w t crownlib = Some (evs, r)"
      using h by (auto simp: crown_build_run_def local_tarball_def Let_def)
    moreover have "setup_build_environment w (os_path_join (build_dir t) [build_tag t])
              (os_path_join (install_dir t) [build_tag t]) crownlib = Inr (my_env, build, install)"
      using h by blast
    ultimately show ?thesis by (rule build_and_upload_spawns)
  qed
qed


lemma example_build_paths:
  "local_tarball example_build = ''/install/v1/CROWN_tau_config/crown_tau_config.tar.gz''"
  "build_output example_build = ''v1/CROWNBuild/crown_tau_config.tar.gz''"
  "basename (build_output example_build) = ''crown_tau_config.tar.gz''"
  "os_path_join (install_dir example_build) [build_tag example_build] = ''/install/v1/CROWN_tau_config''"
  "os_path_join (build_dir example_build) [build_tag example_build] = ''/build/v1/CROWN_tau_config''"
  by (simp_all add: local_tarball_def build_output_def remote_path_def build_tag_def basename_def
      os_path_join_def path_join2_def example_build_def)

lemma example_build_command:
  "join '' '' (compile_command (example_build_world False) example_build
       ''/install/v1/CROWN_tau_config'' ''/build/v1/CROWN_tau_config'')
     = ''bash /work/processor/tasks/scripts/compile_crown.sh /work/CROWN tau config mc,data 2018 scope_a,scope_b None /install/v1/CROWN_tau_config /build/v1/CROWN_tau_config crown_tau_config.tar.gz 4''"
  by (simp add: compile_command_def example_build_paths example_build_world_def
      os_path_join_def path_join2_def basename_def)
    (simp add: example_build_def)

text \<open>
  The theorem at the build task, with the bundle staged (upload only) and without it (the
  compile script is started).
\<close>

theorem crown_build_reuses_local_tarball_witness:
  "crown_build_run (example_build_world True) example_build ''lib''
     = Some ([Log_existing ''/install/v1/CROWN_tau_config'',
              Upload_tarball ''v1/CROWNBuild/crown_tau_config.tar.gz''
                ''/install/v1/CROWN_tau_config/crown_tau_config.tar.gz'' 10], Inr ())
   \<and> Runner (Spawn ''bash /work/processor/tasks/scripts/compile_crown.sh /work/CROWN tau config mc,data 2018 scope_a,scope_b None /install/v1/CROWN_tau_config /build/v1/CROWN_tau_config crown_tau_config.tar.gz 4'' None None)
       \<in> set (fst (the (crown_build_run (example_build_world False) example_build ''lib'')))"
proof -
  have staged: "build_path_exists (example_build_world True) (local_tarball example_build)"
    by (simp add: example_build_paths example_build_world_def)
  have absent: "\<not> build_path_exists (example_build_world False) (local_tarball example_build)"
    by (simp add: example_build_world_def)
  have env_ok: "setup_build_environment (example_build_world False)
                 (os_path_join (build_dir example_build) [build_tag example_build])
                 (os_path_join (install_dir example_build) [build_tag example_build]) ''lib''
               = Inr (Map.empty, ''/build/v1/CROWN_tau_config'', ''/install/v1/CROWN_tau_config'')"
    by (simp add: example_build_paths example_build_world_def)
  have "\<exists>evs r. build_and_upload (example_build_world False) example_build ''lib'' = Some (evs, r)"
    by (simp add: build_and_upload_def env_ok run_command_readable_def stream_child_def Let_def
        compile_command_def split: prod.splits)
      (simp add: example_build_world_def)
  then obtain evs r where run: "crown_build_run (example_build_world False) example_build ''lib'' = Some (evs, r)"
    using absent by (auto simp: crown_build_run_def local_tarball_def Let_def)
  note thm1 = crown_build_reuses_local_tarball [of "example_build_world True" example_build "''lib''",
      THEN conjunct1, THEN mp, OF staged]
  note thm3 = crown_build_reuses_local_tarball [of "example_build_world False" example_build "''lib''"
      evs r Map.empty "''/build/v1/CROWN_tau_config''" "''/install/v1/CROWN_tau_config''",
      THEN conjunct2, THEN conjunct2, THEN mp, OF conjI [OF absent conjI [OF run env_ok]]]
  have "crown_build_run (example_build_world True) example_build ''lib''
     = Some ([Log_existing ''/install/v1/CROWN_tau_config'',
              Upload_tarball ''v1/CROWNBuild/crown_tau_config.tar.gz''
                ''/install/v1/CROWN_tau_config/crown_tau_config.tar.gz'' 10], Inr ())"
    using thm1 unfolding example_build_paths
    by (simp add: example_build_world_def basename_def os_path_join_def path_join2_def)
  moreover have "Runner (Spawn ''bash /work/processor/tasks/scripts/compile_crown.sh /work/CROWN tau config mc,data 2018 scope_a,scope_b None /install/v1/CROWN_tau_config /build/v1/CROWN_tau_config crown_tau_config.tar.gz 4'' None None)
       \<in> set (fst (the (crown_build_run (example_build_world False) example_build ''lib'')))"
    using thm3 unfolding example_build_command by (simp add: run)
  ultimately show ?thesis by blast
qed

end
